theory Spec2Isabelle
  imports Complex_Main "HOL-Library.AList" "HOL-Library.Multiset"
begin

section \<open>Python values and errors\<close>

text \<open>
  The aggregator of \<^verbatim>\<open>openboycottdata/analyze.py\<close> receives dictionaries whose values are
  meant to be two-element lists \<^verbatim>\<open>[weight, score]\<close>, and checks that shape at run time. The
  values it may meet are modelled by \<open>pyval\<close>. Numbers are exact rationals: Python's
  \<^verbatim>\<open>int\<close>, \<^verbatim>\<open>bool\<close> and \<^verbatim>\<open>float\<close> are all read through \<^verbatim>\<open>float()\<close>, and float arithmetic is
  idealised as exact arithmetic (no rounding error, no infinities, no NaN). A string is
  represented by the only thing the code ever asks of it, the outcome of \<^verbatim>\<open>float(s)\<close>:
  \<open>PyStr (Some r)\<close> parses as \<open>r\<close>, \<open>PyStr None\<close> makes \<^verbatim>\<open>float\<close> raise ValueError.
\<close>

datatype pyval =
    PyNum rat
  | PyStr "rat option"
  | PyNone
  | PyList "pyval list"
  | PyTuple "pyval list"

datatype py_error =
    ValueError
  | TypeError
  | ZeroDivisionError
  | KeyError
  | IndexError
  | AttributeError
  | UnboundLocalError
  | ClientError nat

fun py_float :: "pyval \<Rightarrow> py_error + rat" where
  "py_float (PyNum r) = Inr r"
| "py_float (PyStr None) = Inl ValueError"
| "py_float (PyStr (Some r)) = Inr r"
| "py_float PyNone = Inl TypeError"
| "py_float (PyList xs) = Inl TypeError"
| "py_float (PyTuple xs) = Inl TypeError"

text \<open>\<^verbatim>\<open>isinstance(data, list) and len(data) == 2\<close>, giving the two elements.\<close>

fun list2 :: "pyval \<Rightarrow> (pyval \<times> pyval) option" where
  "list2 (PyList [a, b]) = Some (a, b)"
| "list2 d = None"

text \<open>\<^verbatim>\<open>a / b\<close> on floats raises ZeroDivisionError for a zero divisor.\<close>

definition py_truediv :: "rat \<Rightarrow> rat \<Rightarrow> py_error + rat" where
  "py_truediv a b = (if b = 0 then Inl ZeroDivisionError else Inr (a / b))"

text \<open>
  \<^verbatim>\<open>round(x, 3)\<close>: the nearest multiple of \<open>1/1000\<close>, a tie going to the even one.
\<close>

definition round_half_even :: "rat \<Rightarrow> int" where
  "round_half_even x =
     (let f = \<lfloor>x\<rfloor>; d = x - of_int f
      in if d < 1 / 2 then f
         else if 1 / 2 < d then f + 1
         else if even f then f else f + 1)"

definition py_round3 :: "rat \<Rightarrow> rat" where
  "py_round3 x = of_int (round_half_even (x * 1000)) / 1000"

section \<open>The aggregator\<close>

text \<open>
  A dictionary is an association list in insertion order. A bundle maps an issue id to
  one datum; \<open>combined\<close> is \<^verbatim>\<open>combined_metrics\<close>, an issue id with its list of
  \<^verbatim>\<open>[weight, score]\<close> points; \<open>issue_results\<close> is the returned dictionary, whose values are
  the lists \<^verbatim>\<open>[round(total_weight, 3), round(final_score, 3)]\<close>, confidence first.
\<close>

type_synonym metrics_dict = "(string \<times> pyval) list"
type_synonym combined = "(string \<times> (rat \<times> rat) list) list"
type_synonym issue_results = "(string \<times> (rat \<times> rat)) list"

text \<open>
  The body of the inner loop of the first phase, lines 255 to 263: the key is created
  on first sight, a datum of the wrong shape is skipped, and \<^verbatim>\<open>float\<close> is applied to both
  elements (weight first) with nothing to catch what it raises.
\<close>

definition combine_item :: "string \<Rightarrow> pyval \<Rightarrow> combined \<Rightarrow> py_error + combined" where
  "combine_item issue_id data cm =
     (let cm1 = (if map_of cm issue_id = None then AList.update issue_id [] cm else cm)
      in case list2 data of
           None \<Rightarrow> Inr cm1
         | Some (a, b) \<Rightarrow>
             (case py_float a of
                Inl e \<Rightarrow> Inl e
              | Inr weight \<Rightarrow>
                  (case py_float b of
                     Inl e \<Rightarrow> Inl e
                   | Inr score \<Rightarrow>
                       Inr (AList.map_entry issue_id (\<lambda>ps. ps @ [(weight, score)]) cm1))))"

fun combine_items :: "metrics_dict \<Rightarrow> combined \<Rightarrow> py_error + combined" where
  "combine_items [] cm = Inr cm"
| "combine_items ((issue_id, data) # rest) cm =
     (case combine_item issue_id data cm of
        Inl e \<Rightarrow> Inl e
      | Inr cm' \<Rightarrow> combine_items rest cm')"

fun combine_all :: "metrics_dict list \<Rightarrow> combined \<Rightarrow> py_error + combined" where
  "combine_all [] cm = Inr cm"
| "combine_all (metrics # rest) cm =
     (case combine_items metrics cm of
        Inl e \<Rightarrow> Inl e
      | Inr cm' \<Rightarrow> combine_all rest cm')"

definition total_weight :: "(rat \<times> rat) list \<Rightarrow> rat" where
  "total_weight data_points = sum_list (map fst data_points)"

definition weighted_sum :: "(rat \<times> rat) list \<Rightarrow> rat" where
  "weighted_sum data_points = sum_list (map (\<lambda>point. fst point * snd point) data_points)"

text \<open>The second phase, lines 266 to 280.\<close>

fun average_all :: "combined \<Rightarrow> issue_results \<Rightarrow> py_error + issue_results" where
  "average_all [] aggregated = Inr aggregated"
| "average_all ((issue_id, data_points) # rest) aggregated =
     (if data_points = [] then average_all rest aggregated
      else if total_weight data_points \<le> 0 then average_all rest aggregated
      else
        (case py_truediv (weighted_sum data_points) (total_weight data_points) of
           Inl e \<Rightarrow> Inl e
         | Inr final_score \<Rightarrow>
             average_all rest
               (AList.update issue_id
                  (py_round3 (total_weight data_points), py_round3 final_score) aggregated)))"

definition aggregate_metrics :: "metrics_dict list \<Rightarrow> py_error + issue_results" where
  "aggregate_metrics metrics_list =
     (case combine_all metrics_list [] of
        Inl e \<Rightarrow> Inl e
      | Inr combined_metrics \<Rightarrow> average_all combined_metrics [])"

subsection \<open>What the aggregator is meant to compute\<close>

text \<open>
  The specification's reading of the same function, written independently of the loops:
  a well-formed observation is a two-element list whose elements both convert with
  \<^verbatim>\<open>float\<close>; the observations of an issue are collected over all dictionaries in order;
  an issue with no observation or with total weight at most zero has no result, any
  other has the rounded total weight and the rounded weighted mean.
  \<open>entry_raises\<close> holds of a two-element list with an element that \<^verbatim>\<open>float\<close> rejects, and
  \<open>convertible\<close> says that no datum of the input is of that kind.
\<close>

definition observation_of :: "pyval \<Rightarrow> (rat \<times> rat) option" where
  "observation_of data =
     (case list2 data of
        None \<Rightarrow> None
      | Some (a, b) \<Rightarrow>
          (case py_float a of
             Inl e \<Rightarrow> None
           | Inr w \<Rightarrow> (case py_float b of Inl e \<Rightarrow> None | Inr s \<Rightarrow> Some (w, s))))"

definition entry_raises :: "pyval \<Rightarrow> bool" where
  "entry_raises data =
     (case list2 data of
        None \<Rightarrow> False
      | Some (a, b) \<Rightarrow> isl (py_float a) \<or> isl (py_float b))"

definition observations_in :: "string \<Rightarrow> metrics_dict \<Rightarrow> (rat \<times> rat) list" where
  "observations_in issue_id metrics =
     List.map_filter (\<lambda>(k, data). if k = issue_id then observation_of data else None) metrics"

definition observations_for :: "string \<Rightarrow> metrics_dict list \<Rightarrow> (rat \<times> rat) list" where
  "observations_for issue_id metrics_list = concat (map (observations_in issue_id) metrics_list)"

definition convertible :: "metrics_dict list \<Rightarrow> bool" where
  "convertible metrics_list =
     list_all (\<lambda>metrics. list_all (\<lambda>(k, data). \<not> entry_raises data) metrics) metrics_list"

definition issue_result :: "(rat \<times> rat) list \<Rightarrow> (rat \<times> rat) option" where
  "issue_result data_points =
     (if data_points = [] \<or> total_weight data_points \<le> 0 then None
      else Some (py_round3 (total_weight data_points),
                 py_round3 (weighted_sum data_points / total_weight data_points)))"

text \<open>The points stored for a key of \<^verbatim>\<open>combined_metrics\<close>, none for a missing key.\<close>

definition points :: "combined \<Rightarrow> string \<Rightarrow> (rat \<times> rat) list" where
  "points cm k = (case map_of cm k of None \<Rightarrow> [] | Some ps \<Rightarrow> ps)"

subsection \<open>The aggregator of \<^verbatim>\<open>analyze_data.py\<close>\<close>

text \<open>
  The older script carries its own \<^verbatim>\<open>aggregate_metrics\<close>. It differs in two places: the
  conversion runs inside \<^verbatim>\<open>try ... except (ValueError, TypeError): continue\<close>, so a datum
  that does not convert is skipped, and the result of an issue is the dictionary
  \<^verbatim>\<open>{"score": ..., "confidence": ...}\<close> (the record \<open>issue_score\<close>). The second \<^verbatim>\<open>try\<close>, around the averaging, catches
  IndexError and TypeError only, so a ZeroDivisionError would still escape it.
\<close>

record issue_score =
  r_score :: rat
  r_confidence :: rat

type_synonym issue_scores = "(string \<times> issue_score) list"

definition caught_by_conversion :: "py_error \<Rightarrow> bool" where
  "caught_by_conversion e = (e = ValueError \<or> e = TypeError)"

definition combine_item_analyze_data :: "string \<Rightarrow> pyval \<Rightarrow> combined \<Rightarrow> py_error + combined" where
  "combine_item_analyze_data issue_id data cm =
     (let cm1 = (if map_of cm issue_id = None then AList.update issue_id [] cm else cm)
      in case list2 data of
           None \<Rightarrow> Inr cm1
         | Some (a, b) \<Rightarrow>
             (case py_float a of
                Inl e \<Rightarrow> if caught_by_conversion e then Inr cm1 else Inl e
              | Inr weight \<Rightarrow>
                  (case py_float b of
                     Inl e \<Rightarrow> if caught_by_conversion e then Inr cm1 else Inl e
                   | Inr score \<Rightarrow>
                       Inr (AList.map_entry issue_id (\<lambda>ps. ps @ [(weight, score)]) cm1))))"

fun combine_items_analyze_data :: "metrics_dict \<Rightarrow> combined \<Rightarrow> py_error + combined" where
  "combine_items_analyze_data [] cm = Inr cm"
| "combine_items_analyze_data ((issue_id, data) # rest) cm =
     (case combine_item_analyze_data issue_id data cm of
        Inl e \<Rightarrow> Inl e
      | Inr cm' \<Rightarrow> combine_items_analyze_data rest cm')"

fun combine_all_analyze_data :: "metrics_dict list \<Rightarrow> combined \<Rightarrow> py_error + combined" where
  "combine_all_analyze_data [] cm = Inr cm"
| "combine_all_analyze_data (metrics # rest) cm =
     (case combine_items_analyze_data metrics cm of
        Inl e \<Rightarrow> Inl e
      | Inr cm' \<Rightarrow> combine_all_analyze_data rest cm')"

fun average_all_analyze_data :: "combined \<Rightarrow> issue_scores \<Rightarrow> py_error + issue_scores" where
  "average_all_analyze_data [] aggregated = Inr aggregated"
| "average_all_analyze_data ((issue_id, data_points) # rest) aggregated =
     (if data_points = [] then average_all_analyze_data rest aggregated
      else if total_weight data_points \<le> 0 then average_all_analyze_data rest aggregated
      else
        (case py_truediv (weighted_sum data_points) (total_weight data_points) of
           Inl e \<Rightarrow> Inl e
         | Inr final_score \<Rightarrow>
             average_all_analyze_data rest
               (AList.update issue_id
                  \<lparr>r_score = py_round3 final_score,
                   r_confidence = py_round3 (total_weight data_points)\<rparr> aggregated)))"

definition aggregate_metrics_analyze_data :: "metrics_dict list \<Rightarrow> py_error + issue_scores" where
  "aggregate_metrics_analyze_data metrics_list =
     (case combine_all_analyze_data metrics_list [] of
        Inl e \<Rightarrow> Inl e
      | Inr combined_metrics \<Rightarrow> average_all_analyze_data combined_metrics [])"

section \<open>Remote calls and their retry loops\<close>

text \<open>
  The three functions that talk to the model endpoint wrap the call
  \<^verbatim>\<open>gemini_client.models.generate_content(...)\<close> in \<^verbatim>\<open>for attempt in range(5)\<close>. What the
  endpoint does is not code of this repository: it is a parameter \<open>generate_content\<close>
  that gives, for each attempt, the outcome of the \<^verbatim>\<open>try\<close> body: it ran to its end with a
  value, it raised \<^verbatim>\<open>errors.ClientError\<close> with a status code, or it raised some other
  \<^verbatim>\<open>Exception\<close>. The client itself is \<open>None\<close> when the keys hold no Vertex project; the
  attribute access \<^verbatim>\<open>gemini_client.models\<close> then raises AttributeError inside the \<^verbatim>\<open>try\<close>.

  Every function returns its value, or the exception that leaves it, together with the
  trace of what it did: requests sent, seconds slept, lines printed.
\<close>

datatype 'a outcome =
    Returned 'a
  | Raised_ClientError nat
  | Raised_Exception

datatype message =
    Fatal_429_final_retry
  | Retrying_in nat
  | Fatal_gemini_final_retry
  | Error_in_data_grounded_gemini
  | Traceback
  | Client_error_message
  | No_output_found
  | Getting_gemini_data string
  | Getting_competitors string
  | Getting_fmp_data string
  | Googling string
  | Analyzing string
  | Skipping string
  | Google_data_total rat
  | Fmp_data_total rat
  | Gemini_data_total rat

datatype event =
    Request
  | Sleep nat
  | Print message
  | Call_data_google string
  | Call_data_fmp string
  | Call_data_grounded_gemini string
  | Call_ask_compeditors string
  | Add_data string

text \<open>How a loop over the attempts ends: by \<^verbatim>\<open>return\<close>, by an exception, or by running out.\<close>

datatype 'a loop_end =
    Loop_return 'a
  | Loop_raise py_error
  | Loop_done

definition after :: "event list \<Rightarrow> 'a \<times> event list \<Rightarrow> 'a \<times> event list" where
  "after es r = (fst r, es @ snd r)"

definition attempt_outcome :: "'cl option \<Rightarrow> (nat \<Rightarrow> 'a outcome) \<Rightarrow> nat \<Rightarrow> 'a outcome \<times> event list" where
  "attempt_outcome gemini_client generate_content attempt =
     (case gemini_client of
        None \<Rightarrow> (Raised_Exception, [])
      | Some cl \<Rightarrow> (generate_content attempt, [Request]))"

subsection \<open>\<^verbatim>\<open>ask_about_article\<close>, lines 151 to 198\<close>

text \<open>
  The \<^verbatim>\<open>try\<close> body is the call alone and holds no \<^verbatim>\<open>break\<close>: after a call that succeeds
  the loop goes on to the next attempt, and the response read after the loop is the
  last one assigned. How the response parts become the dictionary
  \<^verbatim>\<open>{issue: [weight, score]}\<close> depends on the client library's part objects; it is the
  parameter \<open>decode\<close>, which may raise.
\<close>

fun ask_about_article_attempts ::
  "'cl option \<Rightarrow> (nat \<Rightarrow> 'r outcome) \<Rightarrow> nat list \<Rightarrow> 'r option
     \<Rightarrow> (metrics_dict loop_end \<times> 'r option) \<times> event list" where
  "ask_about_article_attempts gemini_client generate_content [] response =
     ((Loop_done, response), [])"
| "ask_about_article_attempts gemini_client generate_content (attempt # rest) response =
     (case attempt_outcome gemini_client generate_content attempt of
        (Returned r, es) \<Rightarrow>
          after es (ask_about_article_attempts gemini_client generate_content rest (Some r))
      | (Raised_ClientError code, es) \<Rightarrow>
          if code \<noteq> 429 then ((Loop_raise (ClientError code), response), es)
          else if attempt = 4 then
            ((Loop_return [], response), es @ [Print Fatal_429_final_retry])
          else
            after (es @ [Print (Retrying_in (attempt * 300 + 60)), Sleep (attempt * 300 + 60)])
              (ask_about_article_attempts gemini_client generate_content rest response)
      | (Raised_Exception, es) \<Rightarrow>
          if attempt = 4 then
            ((Loop_return [], response), es @ [Print Traceback, Print Fatal_gemini_final_retry])
          else
            after (es @ [Print Error_in_data_grounded_gemini])
              (ask_about_article_attempts gemini_client generate_content rest response))"

definition ask_about_article ::
  "'cl option \<Rightarrow> (nat \<Rightarrow> 'r outcome) \<Rightarrow> ('r \<Rightarrow> py_error + metrics_dict)
     \<Rightarrow> (py_error + metrics_dict) \<times> event list" where
  "ask_about_article gemini_client generate_content decode =
     (case ask_about_article_attempts gemini_client generate_content [0, 1, 2, 3, 4] None of
        ((Loop_return output, response), trace) \<Rightarrow> (Inr output, trace)
      | ((Loop_raise e, response), trace) \<Rightarrow> (Inl e, trace)
      | ((Loop_done, None), trace) \<Rightarrow> (Inl UnboundLocalError, trace)
      | ((Loop_done, Some r), trace) \<Rightarrow>
          (case decode r of
             Inl e \<Rightarrow> (Inl e, trace)
           | Inr output \<Rightarrow>
               (Inr output, if output = [] then trace @ [Print No_output_found] else trace)))"

subsection \<open>\<^verbatim>\<open>data_grounded_gemini\<close>, lines 383 to 439\<close>

text \<open>
  Here the whole decoding of the response is inside the \<^verbatim>\<open>try\<close> and ends in
  \<^verbatim>\<open>return final_output\<close>, a dictionary of \<^verbatim>\<open>[float(weight), float(score)]\<close> lists. A loop that
  ran out would make the function return \<^verbatim>\<open>None\<close>.
\<close>

definition get_test_gemini_response :: "string \<Rightarrow> issue_results" where
  "get_test_gemini_response company_name =
     (if company_name \<noteq> [] then
        [(''DEI_L'', (50, 75)), (''DEI_H'', (50, 80)), (''QUEER'', (50, 70)),
         (''BIPOC'', (50, 65)), (''PAY'', (50, 60)), (''ENV'', (50, 85))]
      else [])"

fun data_grounded_gemini_attempts ::
  "'cl option \<Rightarrow> (nat \<Rightarrow> issue_results outcome) \<Rightarrow> nat list
     \<Rightarrow> issue_results loop_end \<times> event list" where
  "data_grounded_gemini_attempts gemini_client generate_content [] = (Loop_done, [])"
| "data_grounded_gemini_attempts gemini_client generate_content (attempt # rest) =
     (case attempt_outcome gemini_client generate_content attempt of
        (Returned final_output, es) \<Rightarrow> (Loop_return final_output, es)
      | (Raised_ClientError code, es) \<Rightarrow>
          if code \<noteq> 429 then (Loop_raise (ClientError code), es)
          else if attempt = 4 then (Loop_return [], es @ [Print Fatal_429_final_retry])
          else
            after (es @ [Print (Retrying_in (attempt * 300 + 60)), Sleep (attempt * 300 + 60)])
              (data_grounded_gemini_attempts gemini_client generate_content rest)
      | (Raised_Exception, es) \<Rightarrow>
          if attempt = 4 then
            (Loop_return [], es @ [Print Traceback, Print Fatal_gemini_final_retry])
          else
            after (es @ [Print Error_in_data_grounded_gemini])
              (data_grounded_gemini_attempts gemini_client generate_content rest))"

definition data_grounded_gemini ::
  "string \<Rightarrow> 'cl option \<Rightarrow> (nat \<Rightarrow> issue_results outcome) \<Rightarrow> bool
     \<Rightarrow> issue_results loop_end \<times> event list" where
  "data_grounded_gemini company_name gemini_client generate_content test_mode =
     after [Print (Getting_gemini_data company_name)]
       (if test_mode then (Loop_return (get_test_gemini_response company_name), [])
        else data_grounded_gemini_attempts gemini_client generate_content [0, 1, 2, 3, 4])"

subsection \<open>\<^verbatim>\<open>ask_compeditors\<close>, lines 441 to 481\<close>

text \<open>
  The rate-limit handler sleeps and continues only while \<^verbatim>\<open>attempt < 5 - 1\<close>; on the
  last attempt, as for any other status code, control reaches the \<^verbatim>\<open>raise\<close>
  (\<^verbatim>\<open># Re-raise if not 429 or final attempt\<close>). Any other exception is printed and the loop
  goes on; \<^verbatim>\<open>return []\<close> after the loop is the fallback. The value returned by the \<^verbatim>\<open>try\<close>
  body is the argument dictionary of the first function call, of a type \<open>'c\<close> left
  open, or the empty list.
\<close>

datatype 'c competitors =
    Competitor_names "string list"
  | Competitor_args 'c

definition get_test_competitors :: "string \<Rightarrow> 'c competitors" where
  "get_test_competitors company_name =
     (case map_of
        [(''Apple'', [''Samsung'', ''Microsoft'', ''Google'']),
         (''Google'', [''Microsoft'', ''Apple'', ''Amazon'']),
         (''Meta'', [''Twitter'', ''TikTok'', ''LinkedIn''])] company_name of
        Some names \<Rightarrow> Competitor_names names
      | None \<Rightarrow> Competitor_names [''Competitor 1'', ''Competitor 2'', ''Competitor 3''])"

fun ask_compeditors_attempts ::
  "'cl option \<Rightarrow> (nat \<Rightarrow> 'c competitors outcome) \<Rightarrow> nat list
     \<Rightarrow> 'c competitors loop_end \<times> event list" where
  "ask_compeditors_attempts gemini_client generate_content [] = (Loop_done, [])"
| "ask_compeditors_attempts gemini_client generate_content (attempt # rest) =
     (case attempt_outcome gemini_client generate_content attempt of
        (Returned compeditors, es) \<Rightarrow> (Loop_return compeditors, es)
      | (Raised_ClientError code, es) \<Rightarrow>
          if code = 429 then
            (if attempt < 5 - 1 then
               after (es @ [Print Client_error_message, Sleep (300 * attempt + 60)])
                 (ask_compeditors_attempts gemini_client generate_content rest)
             else (Loop_raise (ClientError code), es @ [Print Client_error_message]))
          else (Loop_raise (ClientError code), es)
      | (Raised_Exception, es) \<Rightarrow>
          after (es @ [Print Traceback])
            (ask_compeditors_attempts gemini_client generate_content rest))"

definition ask_compeditors ::
  "string \<Rightarrow> 'cl option \<Rightarrow> (nat \<Rightarrow> 'c competitors outcome) \<Rightarrow> bool
     \<Rightarrow> (py_error + 'c competitors) \<times> event list" where
  "ask_compeditors company_name gemini_client generate_content test_mode =
     after [Print (Getting_competitors company_name)]
       (if test_mode then (Inr (get_test_competitors company_name), [])
        else
          (case ask_compeditors_attempts gemini_client generate_content [0, 1, 2, 3, 4] of
             (Loop_return compeditors, trace) \<Rightarrow> (Inr compeditors, trace)
           | (Loop_raise e, trace) \<Rightarrow> (Inl e, trace)
           | (Loop_done, trace) \<Rightarrow> (Inr (Competitor_names []), trace)))"

section \<open>The company pipeline\<close>

subsection \<open>Name formatting\<close>

text \<open>
  \<^verbatim>\<open>string_standard_formatting\<close>: lower case, strip, then delete every character that is
  not in \<^verbatim>\<open>[a-z0-9]\<close>. Strings are ASCII here.
\<close>

definition lower_char :: "char \<Rightarrow> char" where
  "lower_char c =
     (if (65 :: nat) \<le> of_char c \<and> of_char c \<le> (90 :: nat)
      then char_of (of_char c + (32 :: nat)) else c)"

definition is_space :: "char \<Rightarrow> bool" where
  "is_space c = (of_char c \<in> {9, 10, 11, 12, 13, 28, 29, 30, 31, 32 :: nat})"

definition strip :: "string \<Rightarrow> string" where
  "strip s = rev (dropWhile is_space (rev (dropWhile is_space s)))"

definition is_a_z_0_9 :: "char \<Rightarrow> bool" where
  "is_a_z_0_9 c =
     (((97 :: nat) \<le> of_char c \<and> of_char c \<le> (122 :: nat))
      \<or> ((48 :: nat) \<le> of_char c \<and> of_char c \<le> (57 :: nat)))"

definition string_standard_formatting :: "string \<Rightarrow> string" where
  "string_standard_formatting s = filter is_a_z_0_9 (strip (map lower_char s))"

subsection \<open>The evidence sources\<close>

text \<open>
  Every source returns a dictionary whose values are two-element lists with a number
  in front: \<open>weighted_dict\<close>. The second element is a number everywhere except in the
  financial source, which passes on whatever the payload holds under
  \<^verbatim>\<open>environmentalScore\<close> and \<^verbatim>\<open>socialScore\<close>.
\<close>

type_synonym weighted_dict = "(string \<times> (rat \<times> pyval)) list"

definition of_results :: "issue_results \<Rightarrow> weighted_dict" where
  "of_results d = map (\<lambda>(k, (w, s)). (k, (w, PyNum s))) d"

definition as_metrics :: "weighted_dict \<Rightarrow> metrics_dict" where
  "as_metrics d = map (\<lambda>(k, (w, x)). (k, PyList [PyNum w, x])) d"

definition sum_weights :: "weighted_dict \<Rightarrow> rat" where
  "sum_weights data = sum_list (map (\<lambda>(k, metric_data). fst metric_data) data)"

text \<open>
  What lies outside the repository, per company: the reply of \<^verbatim>\<open>data_google\<close> outside
  test mode (web search, article download and article scoring, taken as a whole: the
  dictionary with \<^verbatim>\<open>data\<close> and \<^verbatim>\<open>sources\<close>, or the exception that escapes it), the two
  fields read from the financial payload (\<open>None\<close> when anything in that \<^verbatim>\<open>try\<close> fails), the
  outcomes of the model endpoint for the two retry loops, and the clock.
\<close>

record 'c world =
  google_reply :: "string \<Rightarrow> py_error + (issue_results \<times> string list)"
  fmp_payload :: "string \<Rightarrow> (pyval \<times> pyval) option"
  scoring_outcome :: "string \<Rightarrow> nat \<Rightarrow> issue_results outcome"
  competitor_outcome :: "string \<Rightarrow> nat \<Rightarrow> 'c competitors outcome"
  time_now :: "string \<Rightarrow> int"

definition get_test_fmp_data :: weighted_dict where
  "get_test_fmp_data = [(''ENV'', (80, PyNum 75)), (''PAY'', (50, PyNum 65))]"

text \<open>
  \<^verbatim>\<open>get_test_google_data\<close> returns \<^verbatim>\<open>{}\<close> for the empty name, and \<^verbatim>\<open>{"data": ..., "sources": []}\<close>
  otherwise: \<open>None\<close> stands for the dictionary without the two keys.
\<close>

definition get_test_google_data :: "string \<Rightarrow> (issue_results \<times> string list) option" where
  "get_test_google_data company_name =
     (if company_name \<noteq> [] then
        Some ([(''DEI_L'', (50, 20)), (''DEI_H'', (60, 30)), (''QUEER'', (70, 40)),
               (''BIPOC'', (80, 50)), (''PAY'', (90, 60))], [])
      else None)"

definition data_fmp :: "'c world \<Rightarrow> string \<Rightarrow> bool \<Rightarrow> weighted_dict \<times> event list" where
  "data_fmp w symbol test_mode =
     after [Print (Getting_fmp_data symbol)]
       (if test_mode then (get_test_fmp_data, [])
        else
          (case fmp_payload w symbol of
             None \<Rightarrow> ([], [])
           | Some (environmentalScore, socialScore) \<Rightarrow>
               ([(''ENV'', (100, environmentalScore)), (''PAY'', (50, socialScore))], [])))"

definition data_google ::
  "'c world \<Rightarrow> string \<Rightarrow> bool \<Rightarrow> (py_error + (issue_results \<times> string list) option) \<times> event list" where
  "data_google w company_name test_mode =
     after [Print (Googling company_name)]
       (if test_mode then (Inr (get_test_google_data company_name), [])
        else
          (case google_reply w company_name of
             Inl e \<Rightarrow> (Inl e, [])
           | Inr reply \<Rightarrow> (Inr (Some reply), [])))"

subsection \<open>\<^verbatim>\<open>analyze_companies\<close>, lines 495 to 562\<close>

record 'c company_record =
  metrics :: issue_results
  full_name :: string
  competitors :: "'c competitors"
  sources :: "string list"
  date :: int

definition empty_function_skip_company :: "string \<Rightarrow> bool" where
  "empty_function_skip_company company = True"

text \<open>
  The client is created when the keys name a Vertex project; the constructor is taken
  to return.
\<close>

definition make_client :: "(string \<times> string) list \<Rightarrow> string option" where
  "make_client keys = map_of keys ''vertexai_project_name''"

text \<open>
  One pass of the loop body for a company that is not skipped, lines 519 to 560. Nothing
  here catches an exception: whatever a source raises leaves \<open>analyze_companies\<close>. The
  result is the updated \<^verbatim>\<open>all_company_data\<close>.
\<close>

definition analyze_company ::
  "'c world \<Rightarrow> string option \<Rightarrow> bool \<Rightarrow> string \<Rightarrow> (string \<times> 'c company_record) list
     \<Rightarrow> (py_error + (string \<times> 'c company_record) list) \<times> event list" where
  "analyze_company w gemini_client test_mode company all_company_data =
     after [Call_data_google company]
       (case data_google w company test_mode of
          (Inl e, t1) \<Rightarrow> (Inl e, t1)
        | (Inr None, t1) \<Rightarrow> (Inl KeyError, t1)
        | (Inr (Some (google_results, source_links)), t1) \<Rightarrow>
            after (t1 @ [Print (Google_data_total (sum_weights (of_results google_results))),
                         Call_data_fmp company])
              (case data_fmp w company test_mode of
                 (fmp_data, t2) \<Rightarrow>
                   after (t2 @ [Print (Fmp_data_total (sum_weights fmp_data)),
                                Call_data_grounded_gemini company])
                     (case data_grounded_gemini company gemini_client
                             (scoring_outcome w company) test_mode of
                        (Loop_raise e, t3) \<Rightarrow> (Inl e, t3)
                      | (Loop_done, t3) \<Rightarrow> (Inl AttributeError, t3)
                      | (Loop_return gemini_response, t3) \<Rightarrow>
                          after (t3 @ [Print (Gemini_data_total
                                                (sum_weights (of_results gemini_response)))])
                            (case aggregate_metrics
                                    [as_metrics (of_results google_results),
                                     as_metrics fmp_data,
                                     as_metrics (of_results gemini_response)] of
                               Inl e \<Rightarrow> (Inl e, [])
                             | Inr aggregated \<Rightarrow>
                                 after [Call_ask_compeditors company]
                                   (case ask_compeditors company gemini_client
                                           (competitor_outcome w company) test_mode of
                                      (Inl e, t4) \<Rightarrow> (Inl e, t4)
                                    | (Inr found, t4) \<Rightarrow>
                                        if aggregated \<noteq> [] then
                                          (Inr (AList.update (string_standard_formatting company)
                                                  \<lparr>metrics = aggregated,
                                                   full_name = company,
                                                   competitors = found,
                                                   sources = source_links,
                                                   date = time_now w company\<rparr>
                                                  all_company_data),
                                           t4 @ [Add_data (string_standard_formatting company)])
                                        else (Inr all_company_data, t4))))))"

text \<open>
  The loop over the companies, lines 513 to 517 and 562. The keys \<^verbatim>\<open>google\<close> and
  \<^verbatim>\<open>financialmodelingprep\<close> are only handed to the requests, which the world stands
  for; the call of \<^verbatim>\<open>add_data\<close> on a new record is the event \<open>Add_data\<close>.
\<close>

fun analyze_loop ::
  "'c world \<Rightarrow> string option \<Rightarrow> bool \<Rightarrow> (string \<Rightarrow> bool) \<Rightarrow> string list
     \<Rightarrow> (string \<times> 'c company_record) list
     \<Rightarrow> (py_error + (string \<times> 'c company_record) list) \<times> event list" where
  "analyze_loop w gemini_client test_mode skip_company [] all_company_data =
     (Inr all_company_data, [])"
| "analyze_loop w gemini_client test_mode skip_company (company # rest) all_company_data =
     after [Print (Analyzing company)]
       (if skip_company (string_standard_formatting company) then
          after [Print (Skipping company)]
            (analyze_loop w gemini_client test_mode skip_company rest all_company_data)
        else
          (case analyze_company w gemini_client test_mode company all_company_data of
             (Inl e, t) \<Rightarrow> (Inl e, t)
           | (Inr updated, t) \<Rightarrow>
               after t (analyze_loop w gemini_client test_mode skip_company rest updated)))"

definition analyze_companies ::
  "'c world \<Rightarrow> string list \<Rightarrow> (string \<times> string) list \<Rightarrow> bool \<Rightarrow> (string \<Rightarrow> bool)
     \<Rightarrow> (py_error + (string \<times> 'c company_record) list) \<times> event list" where
  "analyze_companies w companies keys test_mode skip_company =
     analyze_loop w (make_client keys) test_mode skip_company companies []"

subsection \<open>Concrete endpoints and worlds\<close>

text \<open>An endpoint that signals the rate limit on every attempt, and a predicate that skips nothing.\<close>

definition always_rate_limited :: "nat \<Rightarrow> 'a outcome" where
  "always_rate_limited attempt = Raised_ClientError 429"

definition always_failing :: "nat \<Rightarrow> 'a outcome" where
  "always_failing attempt = Raised_Exception"


definition skip_apple :: "string \<Rightarrow> bool" where
  "skip_apple company = (company = ''apple'')"


text \<open>The same world, with a scoring endpoint that is rate limited on every attempt.\<close>

definition world_rate_limited :: "unit world" where
  "world_rate_limited =
     \<lparr>google_reply = (\<lambda>company. Inr ([(''ENV'', (1, 80))], [''https://example.org/a''])),
      fmp_payload = (\<lambda>company. None),
      scoring_outcome = (\<lambda>company. always_rate_limited),
      competitor_outcome = (\<lambda>company. always_failing),
      time_now = (\<lambda>company. 0)\<rparr>"

definition always_server_error :: "nat \<Rightarrow> 'a outcome" where
  "always_server_error attempt = Raised_ClientError 500"

definition decode_nothing :: "unit \<Rightarrow> py_error + metrics_dict" where
  "decode_nothing response = Inr []"

subsection \<open>Reading a trace\<close>

text \<open>The company for which an event invokes a source or the competitor lookup.\<close>

fun invoked :: "event \<Rightarrow> string option" where
  "invoked (Call_data_google company) = Some company"
| "invoked (Call_data_fmp company) = Some company"
| "invoked (Call_data_grounded_gemini company) = Some company"
| "invoked (Call_ask_compeditors company) = Some company"
| "invoked e = None"

definition quiet :: "event list \<Rightarrow> bool" where
  "quiet trace = list_all (\<lambda>e. invoked e = None) trace"

text \<open>A trace that invokes sources for no company but the given one.\<close>

definition concerns :: "string \<Rightarrow> event list \<Rightarrow> bool" where
  "concerns company trace = list_all (\<lambda>e. invoked e = None \<or> invoked e = Some company) trace"

definition untouched :: "string \<Rightarrow> event list \<Rightarrow> bool" where
  "untouched company trace = list_all (\<lambda>e. invoked e \<noteq> Some company) trace"

section \<open>Properties of the aggregator\<close>

subsection \<open>The loops compute the weighted mean of the collected observations\<close>

text \<open>
  The first phase either meets a datum that makes \<^verbatim>\<open>float\<close> raise, and raises, or returns
  with the well-formed observations of every key appended in order; the keys of
  \<^verbatim>\<open>combined_metrics\<close> stay distinct.
\<close>

lemma observations_in_Cons:
  "observations_in j ((k, d) # es) =
     (if k = j then (case observation_of d of None \<Rightarrow> [] | Some p \<Rightarrow> [p]) else []) @ observations_in j es"
  by (simp add: observations_in_def List.map_filter_simps split: option.splits)

lemma observations_in_Nil: "observations_in j [] = []"
  by (simp add: observations_in_def List.map_filter_simps)

lemma map_of_Some_key: "map_of cm k = Some y \<Longrightarrow> k \<in> fst ` set cm"
  by (metis domI dom_map_of_conv_image_fst)

lemma combine_item_raises:
  "entry_raises d \<Longrightarrow> \<exists>e. combine_item k d cm = Inl e"
  by (auto simp: entry_raises_def combine_item_def Let_def isl_def split: option.splits sum.splits)

lemma combine_item_returns:
  assumes "\<not> entry_raises d"
  shows "\<exists>cm'. combine_item k d cm = Inr cm'
           \<and> (\<forall>j. points cm' j = points cm j @ (if k = j then (case observation_of d of None \<Rightarrow> [] | Some p \<Rightarrow> [p]) else []))
           \<and> (distinct (map fst cm) \<longrightarrow> distinct (map fst cm'))
           \<and> fst ` set cm' = insert k (fst ` set cm)"
proof (cases "list2 d")
  case None
  then show ?thesis
    by (auto simp: combine_item_def observation_of_def points_def update_conv' distinct_update dom_update
        map_of_Some_key split: option.splits)
next
  case (Some ab)
  obtain a b where ab: "ab = (a, b)" by (cases ab)
  from assms Some ab obtain w s where w: "py_float a = Inr w" and s: "py_float b = Inr s"
    by (cases "py_float a"; cases "py_float b") (auto simp: entry_raises_def)
  show ?thesis using Some ab w s
    by (auto simp: combine_item_def observation_of_def points_def update_conv' distinct_update dom_update
        map_of_map_entry distinct_map_entry dom_map_entry map_of_Some_key
        split: option.splits)
qed

lemma combine_items_returns:
  "list_all (\<lambda>(k, data). \<not> entry_raises data) es \<Longrightarrow>
   \<exists>cm'. combine_items es cm = Inr cm'
      \<and> (\<forall>j. points cm' j = points cm j @ observations_in j es)
      \<and> (distinct (map fst cm) \<longrightarrow> distinct (map fst cm'))"
proof (induction es arbitrary: cm)
  case Nil
  then show ?case by (simp add: observations_in_Nil)
next
  case (Cons e es)
  obtain k d where e: "e = (k, d)" by (cases e)
  from Cons.prems e have d: "\<not> entry_raises d" and es: "list_all (\<lambda>(k, data). \<not> entry_raises data) es"
    by simp_all
  from combine_item_returns [OF d, of k cm] obtain cm1 where
    c1: "combine_item k d cm = Inr cm1"
    and p1: "\<And>j. points cm1 j = points cm j @ (if k = j then (case observation_of d of None \<Rightarrow> [] | Some p \<Rightarrow> [p]) else [])"
    and d1: "distinct (map fst cm) \<longrightarrow> distinct (map fst cm1)"
    by blast
  from Cons.IH [OF es, of cm1] obtain cm2 where
    c2: "combine_items es cm1 = Inr cm2"
    and p2: "\<And>j. points cm2 j = points cm1 j @ observations_in j es"
    and d2: "distinct (map fst cm1) \<longrightarrow> distinct (map fst cm2)"
    by blast
  have "combine_items (e # es) cm = Inr cm2" using e c1 c2 by simp
  moreover have "\<And>j. points cm2 j = points cm j @ observations_in j (e # es)"
    unfolding e observations_in_Cons p2 p1 by simp
  ultimately show ?case using d1 d2 by blast
qed

lemma combine_items_raises:
  "\<not> list_all (\<lambda>(k, data). \<not> entry_raises data) es \<Longrightarrow> \<exists>e. combine_items es cm = Inl e"
proof (induction es arbitrary: cm)
  case Nil
  then show ?case by simp
next
  case (Cons x es)
  obtain k d where x: "x = (k, d)" by (cases x)
  show ?case
  proof (cases "entry_raises d")
    case True
    from combine_item_raises [OF True, of k cm] show ?thesis using x by auto
  next
    case False
    with Cons.prems x have "\<not> list_all (\<lambda>(k, data). \<not> entry_raises data) es" by simp
    from Cons.IH [OF this] show ?thesis using x
      by (cases "combine_item k d cm") auto
  qed
qed

lemma combine_all_returns:
  "convertible ml \<Longrightarrow>
   \<exists>cm'. combine_all ml cm = Inr cm'
      \<and> (\<forall>j. points cm' j = points cm j @ observations_for j ml)
      \<and> (distinct (map fst cm) \<longrightarrow> distinct (map fst cm'))"
proof (induction ml arbitrary: cm)
  case Nil
  then show ?case by (simp add: observations_for_def)
next
  case (Cons m ml)
  from Cons.prems have m: "list_all (\<lambda>(k, data). \<not> entry_raises data) m" and ml: "convertible ml"
    by (simp_all add: convertible_def)
  from combine_items_returns [OF m, of cm] obtain cm1 where
    c1: "combine_items m cm = Inr cm1"
    and p1: "\<And>j. points cm1 j = points cm j @ observations_in j m"
    and d1: "distinct (map fst cm) \<longrightarrow> distinct (map fst cm1)"
    by blast
  from Cons.IH [OF ml, of cm1] obtain cm2 where
    c2: "combine_all ml cm1 = Inr cm2"
    and p2: "\<And>j. points cm2 j = points cm1 j @ observations_for j ml"
    and d2: "distinct (map fst cm1) \<longrightarrow> distinct (map fst cm2)"
    by blast
  have "combine_all (m # ml) cm = Inr cm2" using c1 c2 by simp
  moreover have "\<And>j. points cm2 j = points cm j @ observations_for j (m # ml)"
    unfolding p2 p1 by (simp add: observations_for_def)
  ultimately show ?case using d1 d2 by blast
qed

lemma combine_all_raises:
  "\<not> convertible ml \<Longrightarrow> \<exists>e. combine_all ml cm = Inl e"
proof (induction ml arbitrary: cm)
  case Nil
  then show ?case by (simp add: convertible_def)
next
  case (Cons m ml)
  show ?case
  proof (cases "list_all (\<lambda>(k, data). \<not> entry_raises data) m")
    case False
    from combine_items_raises [OF False, of cm] show ?thesis by auto
  next
    case True
    with Cons.prems have "\<not> convertible ml" by (simp add: convertible_def)
    from Cons.IH [OF this] show ?thesis
      by (cases "combine_items m cm") auto
  qed
qed

text \<open>
  The second phase always returns: on distinct keys it stores the result of each issue
  that has one and leaves every other key as it was.
\<close>

lemma average_all_returns:
  "distinct (map fst cm) \<Longrightarrow>
   \<exists>out. average_all cm agg = Inr out
      \<and> (\<forall>j. map_of out j =
            (case map_of cm j of
               None \<Rightarrow> map_of agg j
             | Some ps \<Rightarrow> (case issue_result ps of None \<Rightarrow> map_of agg j | Some r \<Rightarrow> Some r)))"
proof (induction cm arbitrary: agg)
  case Nil
  then show ?case by simp
next
  case (Cons x cm)
  obtain k ps where x: "x = (k, ps)" by (cases x)
  from Cons.prems x have dist: "distinct (map fst cm)" and notin: "map_of cm k = None"
    by (auto simp: map_of_eq_None_iff)
  show ?case
  proof (cases "issue_result ps")
    case None
    then have skip: "average_all (x # cm) agg = average_all cm agg"
      using x by (auto simp: issue_result_def split: if_splits)
    from Cons.IH [OF dist, of agg] obtain out where
      o: "average_all cm agg = Inr out"
      and m: "\<And>j. map_of out j =
            (case map_of cm j of
               None \<Rightarrow> map_of agg j
             | Some ps \<Rightarrow> (case issue_result ps of None \<Rightarrow> map_of agg j | Some r \<Rightarrow> Some r))"
      by blast
    have "map_of out j =
            (case map_of (x # cm) j of
               None \<Rightarrow> map_of agg j
             | Some ps \<Rightarrow> (case issue_result ps of None \<Rightarrow> map_of agg j | Some r \<Rightarrow> Some r))" for j
    proof (cases "j = k")
      case True
      then show ?thesis using m [of k] notin x None by simp
    next
      case False
      then show ?thesis using m [of j] x by simp
    qed
    then show ?thesis using o skip by simp
  next
    case (Some r)
    then have step: "average_all (x # cm) agg = average_all cm (AList.update k r agg)"
      using x by (auto simp: issue_result_def py_truediv_def split: if_splits)
    from Cons.IH [OF dist, of "AList.update k r agg"] obtain out where
      o: "average_all cm (AList.update k r agg) = Inr out"
      and m: "\<And>j. map_of out j =
            (case map_of cm j of
               None \<Rightarrow> map_of (AList.update k r agg) j
             | Some ps \<Rightarrow> (case issue_result ps of None \<Rightarrow> map_of (AList.update k r agg) j | Some r \<Rightarrow> Some r))"
      by blast
    have "map_of out j =
            (case map_of (x # cm) j of
               None \<Rightarrow> map_of agg j
             | Some ps \<Rightarrow> (case issue_result ps of None \<Rightarrow> map_of agg j | Some r \<Rightarrow> Some r))" for j
    proof (cases "j = k")
      case True
      then show ?thesis using m [of k] notin x Some by (simp add: update_conv')
    next
      case False
      then show ?thesis using m [of j] x by (simp add: update_conv' split: option.splits)
    qed
    then show ?thesis using o step by simp
  qed
qed

text \<open>Together: on a convertible input the loops and the specification agree on every issue.\<close>

lemma aggregate_metrics_returns:
  assumes "convertible ml"
  shows "\<exists>out. aggregate_metrics ml = Inr out
           \<and> (\<forall>j. map_of out j = issue_result (observations_for j ml))"
proof -
  from combine_all_returns [OF assms, of "[]"] obtain cm where
    c: "combine_all ml [] = Inr cm"
    and p: "\<And>j. points cm j = observations_for j ml"
    and d: "distinct (map fst cm)"
    by (auto simp: points_def)
  from average_all_returns [OF d, of "[]"] obtain out where
    a: "average_all cm [] = Inr out"
    and m: "\<And>j. map_of out j = (case map_of cm j of None \<Rightarrow> map_of [] j
             | Some ps \<Rightarrow> (case issue_result ps of None \<Rightarrow> map_of [] j | Some r \<Rightarrow> Some r))"
    by blast
  have "map_of out j = issue_result (observations_for j ml)" for j
  proof (cases "map_of cm j")
    case None
    then have "observations_for j ml = []" using p [of j] by (simp add: points_def)
    then show ?thesis using m [of j] None by (simp add: issue_result_def)
  next
    case (Some ps)
    then have "observations_for j ml = ps" using p [of j] by (simp add: points_def)
    then show ?thesis using m [of j] Some by (cases "issue_result ps") simp_all
  qed
  then show ?thesis using c a by (simp add: aggregate_metrics_def)
qed

lemma aggregate_metrics_raises:
  "\<not> convertible ml \<Longrightarrow> \<exists>e. aggregate_metrics ml = Inl e"
  using combine_all_raises [of ml "[]"] by (auto simp: aggregate_metrics_def)

subsection \<open>Rounding is monotone, and a weighted mean lies between the extremes\<close>







subsection \<open>Order of the input\<close>

text \<open>
  In exact arithmetic the sums do not depend on the order of the observations, so the
  result, read as a mapping, does not depend on the order of the dictionaries; the
  insertion order of its keys may. This is a statement about the idealised numbers only:
  the program adds floats in list order, and float addition is not associative.
\<close>

lemma issue_result_mset:
  assumes "mset ps = mset qs"
  shows "issue_result ps = issue_result qs"
proof -
  have "sum_mset (image_mset fst (mset ps)) = sum_mset (image_mset fst (mset qs))"
    and "sum_mset (image_mset (\<lambda>point. fst point * snd point) (mset ps))
       = sum_mset (image_mset (\<lambda>point. fst point * snd point) (mset qs))"
    using assms by simp_all
  then have "total_weight ps = total_weight qs" and "weighted_sum ps = weighted_sum qs"
    unfolding total_weight_def weighted_sum_def by (simp_all add: sum_mset_sum_list flip: mset_map)
  moreover have "ps = [] \<longleftrightarrow> qs = []" using assms by (metis mset_zero_iff)
  ultimately show ?thesis by (simp add: issue_result_def)
qed

lemma observations_for_mset:
  assumes "mset ml' = mset ml"
  shows "mset (observations_for j ml') = mset (observations_for j ml)"
proof -
  have "mset (observations_for j xs) = sum_mset (image_mset (\<lambda>m. mset (observations_in j m)) (mset xs))" for xs
    by (induction xs) (simp_all add: observations_for_def)
  then show ?thesis using assms by simp
qed

lemma convertible_mset:
  assumes "mset ml' = mset ml"
  shows "convertible ml' \<longleftrightarrow> convertible ml"
proof -
  have "set ml' = set ml" using assms by (metis set_mset_mset)
  then show ?thesis by (simp add: convertible_def list_all_iff)
qed

lemma aggregate_metrics_permutation_exact:
  assumes "mset ml' = mset ml"
  shows "(\<exists>out out'. aggregate_metrics ml = Inr out \<and> aggregate_metrics ml' = Inr out' \<and> map_of out' = map_of out)
       \<or> (\<exists>e e'. aggregate_metrics ml = Inl e \<and> aggregate_metrics ml' = Inl e')"
proof (cases "convertible ml")
  case True
  then have c': "convertible ml'" using convertible_mset [OF assms] by simp
  from aggregate_metrics_returns [OF True] obtain out where
    o: "aggregate_metrics ml = Inr out" "\<And>j. map_of out j = issue_result (observations_for j ml)" by blast
  from aggregate_metrics_returns [OF c'] obtain out' where
    o': "aggregate_metrics ml' = Inr out'" "\<And>j. map_of out' j = issue_result (observations_for j ml')" by blast
  have "map_of out' j = map_of out j" for j
    using o(2) [of j] o'(2) [of j] issue_result_mset [OF observations_for_mset [OF assms, of j]] by simp
  then have "map_of out' = map_of out" by (rule ext)
  then show ?thesis using o(1) o'(1) by blast
next
  case False
  then have "\<not> convertible ml'" using convertible_mset [OF assms] by simp
  then show ?thesis using aggregate_metrics_raises [OF False] aggregate_metrics_raises [of ml'] by blast
qed

subsection \<open>The only errors\<close>

lemma py_float_errors: "py_float v = Inl e \<Longrightarrow> e = ValueError \<or> e = TypeError"
  by (induction v rule: py_float.induct) simp_all

lemma combine_item_errors: "combine_item k d cm = Inl e \<Longrightarrow> e = ValueError \<or> e = TypeError"
  by (auto simp: combine_item_def Let_def split: option.splits sum.splits if_splits dest: py_float_errors)

lemma combine_items_errors: "combine_items es cm = Inl e \<Longrightarrow> e = ValueError \<or> e = TypeError"
proof (induction es arbitrary: cm)
  case Nil
  then show ?case by simp
next
  case (Cons x es)
  obtain k d where "x = (k, d)" by (cases x)
  with Cons show ?case
    by (cases "combine_item k d cm") (auto dest: combine_item_errors)
qed

lemma combine_all_errors: "combine_all ml cm = Inl e \<Longrightarrow> e = ValueError \<or> e = TypeError"
proof (induction ml arbitrary: cm)
  case Nil
  then show ?case by simp
next
  case (Cons m ml)
  then show ?case
    by (cases "combine_items m cm") (auto dest: combine_items_errors)
qed

lemma average_all_total: "\<exists>out. average_all cm agg = Inr out"
  by (induction cm agg rule: average_all.induct) (auto simp: py_truediv_def)

lemma aggregate_metrics_errors: "aggregate_metrics ml = Inl e \<Longrightarrow> e = ValueError \<or> e = TypeError"
proof -
  assume a: "aggregate_metrics ml = Inl e"
  show ?thesis
  proof (cases "combine_all ml []")
    case (Inl e')
    with a have "e' = e" by (simp add: aggregate_metrics_def)
    with Inl show ?thesis by (auto dest: combine_all_errors)
  next
    case (Inr cm)
    with a average_all_total [of cm "[]"] show ?thesis by (auto simp: aggregate_metrics_def)
  qed
qed

section \<open>Claims about the aggregator\<close>



text \<open>
  C2. The empty list gives the empty dictionary; whenever \<open>aggregate_metrics\<close> returns, an
  issue whose well-formed observations have total weight at most zero (all of weight
  zero included) has no entry in the result; and the division is guarded by the test
  on the total weight, so \<open>aggregate_metrics\<close> never raises ZeroDivisionError.
\<close>

theorem aggregate_metrics_omits_nonpositive:
  "aggregate_metrics [] = Inr []
   \<and> (\<forall>out. aggregate_metrics metrics_list = Inr out
          \<and> total_weight (observations_for issue_id metrics_list) \<le> 0
        \<longrightarrow> map_of out issue_id = None)
   \<and> aggregate_metrics metrics_list \<noteq> Inl ZeroDivisionError"
proof (intro conjI allI impI)
  show "aggregate_metrics [] = Inr []" by (simp add: aggregate_metrics_def)
next
  fix out
  assume a: "aggregate_metrics metrics_list = Inr out
          \<and> total_weight (observations_for issue_id metrics_list) \<le> 0"
  then have "convertible metrics_list"
    using aggregate_metrics_raises [of metrics_list] by auto
  from aggregate_metrics_returns [OF this] a
  have "map_of out issue_id = issue_result (observations_for issue_id metrics_list)" by auto
  with a show "map_of out issue_id = None" by (simp add: issue_result_def)
next
  show "aggregate_metrics metrics_list \<noteq> Inl ZeroDivisionError"
    using aggregate_metrics_errors [of metrics_list ZeroDivisionError] by auto
qed

theorem aggregate_metrics_omits_nonpositive_witness:
  "aggregate_metrics
     [[(''X'', PyList [PyNum 0, PyNum 50])], [(''X'', PyList [PyNum 0, PyNum 70])],
      [(''Y'', PyList [PyNum 1, PyNum 10])]] = Inr [(''Y'', (1, 10))]
   \<and> total_weight (observations_for ''X''
     [[(''X'', PyList [PyNum 0, PyNum 50])], [(''X'', PyList [PyNum 0, PyNum 70])],
      [(''Y'', PyList [PyNum 1, PyNum 10])]]) \<le> 0
   \<and> map_of [(''Y'', (1 :: rat, 10 :: rat))] ''X'' = None"
proof -
  let ?ml = "[[(''X'', PyList [PyNum 0, PyNum 50])], [(''X'', PyList [PyNum 0, PyNum 70])],
      [(''Y'', PyList [PyNum 1, PyNum 10])]]"
  have r: "aggregate_metrics ?ml = Inr [(''Y'', (1, 10))]"
    by (simp add: aggregate_metrics_def combine_item_def total_weight_def weighted_sum_def
        py_truediv_def py_round3_def round_half_even_def Let_def)
  have t: "total_weight (observations_for ''X'' ?ml) \<le> 0"
    by (simp add: observations_for_def observations_in_def List.map_filter_simps
        observation_of_def total_weight_def)
  from aggregate_metrics_omits_nonpositive [of ?ml "''X''"] r t
  have "map_of [(''Y'', (1 :: rat, 10 :: rat))] ''X'' = None" by blast
  with r t show ?thesis by blast
qed

text \<open>
  The aggregator of \<^verbatim>\<open>analyze_data.py\<close> returns on every input: what \<^verbatim>\<open>float\<close> raises is
  caught where it is raised, and the division is guarded.
\<close>

lemma combine_item_analyze_data_returns: "\<exists>cm'. combine_item_analyze_data k d cm = Inr cm'"
  by (auto simp: combine_item_analyze_data_def caught_by_conversion_def Let_def
      split: option.splits sum.splits dest: py_float_errors)

lemma combine_items_analyze_data_returns: "\<exists>cm'. combine_items_analyze_data es cm = Inr cm'"
proof (induction es arbitrary: cm)
  case Nil
  then show ?case by simp
next
  case (Cons x es)
  obtain k d where x: "x = (k, d)" by (cases x)
  from combine_item_analyze_data_returns [of k d cm] obtain cm1
    where "combine_item_analyze_data k d cm = Inr cm1" by blast
  with Cons.IH [of cm1] x show ?case by simp
qed

lemma combine_all_analyze_data_returns: "\<exists>cm'. combine_all_analyze_data ml cm = Inr cm'"
proof (induction ml arbitrary: cm)
  case Nil
  then show ?case by simp
next
  case (Cons m ml)
  from combine_items_analyze_data_returns [of m cm] obtain cm1
    where "combine_items_analyze_data m cm = Inr cm1" by blast
  with Cons.IH [of cm1] show ?case by simp
qed

lemma average_all_analyze_data_returns: "\<exists>out. average_all_analyze_data cm agg = Inr out"
  by (induction cm agg rule: average_all_analyze_data.induct) (auto simp: py_truediv_def)

lemma aggregate_metrics_analyze_data_returns: "\<exists>out. aggregate_metrics_analyze_data ml = Inr out"
proof -
  from combine_all_analyze_data_returns [of ml "[]"] obtain cm
    where "combine_all_analyze_data ml [] = Inr cm" by blast
  with average_all_analyze_data_returns [of cm "[]"] show ?thesis
    by (simp add: aggregate_metrics_analyze_data_def)
qed

lemma aggregate_metrics_analyze_data_skips_malformed:
  "aggregate_metrics_analyze_data
     [[(''ENV'', PyList [PyNum 100, PyNum 70]), (''PAY'', PyList [PyNum 50, PyNone])]]
   = Inr [(''ENV'', \<lparr>r_score = 70, r_confidence = 100\<rparr>)]"
  by (simp add: aggregate_metrics_analyze_data_def combine_item_analyze_data_def
      caught_by_conversion_def total_weight_def weighted_sum_def py_truediv_def py_round3_def
      round_half_even_def Let_def)

text \<open>
  C5. The claim is that malformed entries are discarded and the call never raises. In
  \<^verbatim>\<open>analyze.py\<close> a datum of the wrong shape is indeed skipped, but a two-element list with
  an element that \<^verbatim>\<open>float\<close> rejects raises out of \<open>aggregate_metrics\<close>. The dictionary
  \<open>ENV \<mapsto> [100, 70], PAY \<mapsto> [50, None]\<close> has the shape that \<open>data_fmp\<close> builds from a payload
  whose \<^verbatim>\<open>socialScore\<close> is null; on it the call ends in TypeError instead of returning the
  \<open>ENV\<close> aggregate. The aggregator of \<^verbatim>\<open>analyze_data.py\<close> returns
  \<open>ENV \<mapsto> (score 70, confidence 100)\<close> on the same input.
\<close>

theorem aggregate_metrics_raises_on_non_numeric:
  "aggregate_metrics
     [[(''ENV'', PyList [PyNum 100, PyNum 70]), (''PAY'', PyList [PyNum 50, PyNone])]]
   = Inl TypeError"
  by (simp add: aggregate_metrics_def combine_item_def)







section \<open>The retry loops on an endpoint that keeps failing\<close>

lemma first_five:
  assumes "\<forall>attempt < 5. f attempt = v"
  shows "f 0 = v" "f (Suc 0) = v" "f 2 = v" "f 3 = v" "f 4 = v"
  using assms by simp_all

lemma ask_about_article_rate_limited:
  assumes "\<forall>attempt < 5. generate_content attempt = Raised_ClientError 429"
  shows "ask_about_article (Some cl) generate_content decode
         = (Inr [],
            [Request, Print (Retrying_in 60), Sleep 60,
             Request, Print (Retrying_in 360), Sleep 360,
             Request, Print (Retrying_in 660), Sleep 660,
             Request, Print (Retrying_in 960), Sleep 960,
             Request, Print Fatal_429_final_retry])"
  by (simp add: ask_about_article_def attempt_outcome_def after_def first_five [OF assms])

lemma data_grounded_gemini_rate_limited:
  assumes "\<forall>attempt < 5. generate_content attempt = Raised_ClientError 429"
  shows "data_grounded_gemini company (Some cl) generate_content False
         = (Loop_return [],
            [Print (Getting_gemini_data company),
             Request, Print (Retrying_in 60), Sleep 60,
             Request, Print (Retrying_in 360), Sleep 360,
             Request, Print (Retrying_in 660), Sleep 660,
             Request, Print (Retrying_in 960), Sleep 960,
             Request, Print Fatal_429_final_retry])"
  by (simp add: data_grounded_gemini_def attempt_outcome_def after_def first_five [OF assms])

lemma ask_compeditors_rate_limited:
  assumes "\<forall>attempt < 5. generate_content attempt = Raised_ClientError 429"
  shows "ask_compeditors company (Some cl) generate_content False
         = (Inl (ClientError 429),
            [Print (Getting_competitors company),
             Request, Print Client_error_message, Sleep 60,
             Request, Print Client_error_message, Sleep 360,
             Request, Print Client_error_message, Sleep 660,
             Request, Print Client_error_message, Sleep 960,
             Request, Print Client_error_message])"
  by (simp add: ask_compeditors_def attempt_outcome_def after_def first_five [OF assms])



section \<open>Claims about the retry loops\<close>

text \<open>
  C3, as the claim states it, fails at the competitor lookup: with an endpoint that is
  rate limited on every attempt \<open>ask_compeditors\<close> makes its five requests, sleeps 60,
  360, 660 and 960 seconds between them, and then re-raises the client error instead of
  returning the empty list.
\<close>

theorem ask_compeditors_reraises_final_rate_limit:
  "ask_compeditors ''Acme'' (Some ()) (always_rate_limited :: nat \<Rightarrow> unit competitors outcome) False
   = (Inl (ClientError 429),
      [Print (Getting_competitors ''Acme''),
       Request, Print Client_error_message, Sleep 60,
       Request, Print Client_error_message, Sleep 360,
       Request, Print Client_error_message, Sleep 660,
       Request, Print Client_error_message, Sleep 960,
       Request, Print Client_error_message])"
  by (simp add: ask_compeditors_def always_rate_limited_def attempt_outcome_def after_def)

text \<open>
  C3, amended. With an endpoint that signals the rate limit on each of the five
  attempts, article scoring and the grounded model make exactly five requests, sleep
  60, 360, 660 and 960 seconds between them, print the final message and return the
  empty dictionary; the competitor lookup makes the same five requests with the same
  sleeps and then raises the client error. At all three sites a client error with any
  other status code leaves the loop at the attempt where it occurs, with no sleep and
  no further request.
\<close>

theorem retry_on_rate_limit:
  assumes "\<forall>attempt < 5. score_article attempt = Raised_ClientError 429"
    and "\<forall>attempt < 5. score_company attempt = Raised_ClientError 429"
    and "\<forall>attempt < 5. list_competition attempt = Raised_ClientError 429"
  shows "ask_about_article (Some cl) score_article decode
         = (Inr [],
            [Request, Print (Retrying_in 60), Sleep 60,
             Request, Print (Retrying_in 360), Sleep 360,
             Request, Print (Retrying_in 660), Sleep 660,
             Request, Print (Retrying_in 960), Sleep 960,
             Request, Print Fatal_429_final_retry])
       \<and> data_grounded_gemini company (Some cl) score_company False
         = (Loop_return [],
            [Print (Getting_gemini_data company),
             Request, Print (Retrying_in 60), Sleep 60,
             Request, Print (Retrying_in 360), Sleep 360,
             Request, Print (Retrying_in 660), Sleep 660,
             Request, Print (Retrying_in 960), Sleep 960,
             Request, Print Fatal_429_final_retry])
       \<and> ask_compeditors company (Some cl) list_competition False
         = (Inl (ClientError 429),
            [Print (Getting_competitors company),
             Request, Print Client_error_message, Sleep 60,
             Request, Print Client_error_message, Sleep 360,
             Request, Print Client_error_message, Sleep 660,
             Request, Print Client_error_message, Sleep 960,
             Request, Print Client_error_message])
       \<and> (code \<noteq> 429 \<and> g1 attempt = Raised_ClientError code \<longrightarrow>
            ask_about_article_attempts (Some cl) g1 (attempt # rest) response
            = ((Loop_raise (ClientError code), response), [Request]))
       \<and> (code \<noteq> 429 \<and> g2 attempt = Raised_ClientError code \<longrightarrow>
            data_grounded_gemini_attempts (Some cl) g2 (attempt # rest)
            = (Loop_raise (ClientError code), [Request]))
       \<and> (code \<noteq> 429 \<and> g3 attempt = Raised_ClientError code \<longrightarrow>
            ask_compeditors_attempts (Some cl) g3 (attempt # rest)
            = (Loop_raise (ClientError code), [Request]))"
proof -
  note 1 = ask_about_article_rate_limited [OF assms(1), of cl decode]
  note 2 = data_grounded_gemini_rate_limited [OF assms(2), of company cl]
  note 3 = ask_compeditors_rate_limited [OF assms(3), of company cl]
  have 4: "code \<noteq> 429 \<and> g1 attempt = Raised_ClientError code \<longrightarrow>
            ask_about_article_attempts (Some cl) g1 (attempt # rest) response
            = ((Loop_raise (ClientError code), response), [Request])"
    by (simp add: attempt_outcome_def)
  have 5: "code \<noteq> 429 \<and> g2 attempt = Raised_ClientError code \<longrightarrow>
            data_grounded_gemini_attempts (Some cl) g2 (attempt # rest)
            = (Loop_raise (ClientError code), [Request])"
    by (simp add: attempt_outcome_def)
  have 6: "code \<noteq> 429 \<and> g3 attempt = Raised_ClientError code \<longrightarrow>
            ask_compeditors_attempts (Some cl) g3 (attempt # rest)
            = (Loop_raise (ClientError code), [Request])"
    by (simp add: attempt_outcome_def)
  from 1 2 3 4 5 6 show ?thesis by blast
qed

theorem retry_on_rate_limit_witness:
  "(always_rate_limited 4 :: unit outcome) = Raised_ClientError 429
   \<and> (always_rate_limited 4 :: issue_results outcome) = Raised_ClientError 429
   \<and> (always_rate_limited 4 :: unit competitors outcome) = Raised_ClientError 429
   \<and> fst (ask_about_article (Some ()) (always_rate_limited :: nat \<Rightarrow> unit outcome) decode_nothing)
       = Inr []
   \<and> fst (data_grounded_gemini ''Acme'' (Some ()) always_rate_limited False) = Loop_return []
   \<and> fst (ask_compeditors ''Acme'' (Some ())
            (always_rate_limited :: nat \<Rightarrow> unit competitors outcome) False)
       = Inl (ClientError 429)
   \<and> ((500 :: nat) \<noteq> 429
       \<and> (always_server_error 2 :: issue_results outcome) = Raised_ClientError 500)
   \<and> data_grounded_gemini_attempts (Some ()) always_server_error [2, 3, 4]
       = (Loop_raise (ClientError 500), [Request])"
proof -
  have h1: "\<forall>attempt < 5. (always_rate_limited attempt :: unit outcome) = Raised_ClientError 429"
    and h2: "\<forall>attempt < 5. (always_rate_limited attempt :: issue_results outcome) = Raised_ClientError 429"
    and h3: "\<forall>attempt < 5. (always_rate_limited attempt :: unit competitors outcome) = Raised_ClientError 429"
    by (simp_all add: always_rate_limited_def)
  have h4: "(500 :: nat) \<noteq> 429
       \<and> (always_server_error 2 :: issue_results outcome) = Raised_ClientError 500"
    by (simp add: always_server_error_def)
  note r = retry_on_rate_limit [OF h1 h2 h3, where cl = "()" and decode = decode_nothing
      and company = "''Acme''" and code = 500 and ?g2.0 = always_server_error and attempt = 2
      and rest = "[3, 4]"]
  from r [THEN conjunct1]
  have "fst (ask_about_article (Some ()) (always_rate_limited :: nat \<Rightarrow> unit outcome) decode_nothing)
       = Inr []"
    by (simp only: fst_conv)
  moreover from r [THEN conjunct2, THEN conjunct1]
  have "fst (data_grounded_gemini ''Acme'' (Some ()) always_rate_limited False) = Loop_return []"
    by (simp only: fst_conv)
  moreover from r [THEN conjunct2, THEN conjunct2, THEN conjunct1]
  have "fst (ask_compeditors ''Acme'' (Some ())
            (always_rate_limited :: nat \<Rightarrow> unit competitors outcome) False)
       = Inl (ClientError 429)"
    by (simp only: fst_conv)
  moreover from r [THEN conjunct2, THEN conjunct2, THEN conjunct2, THEN conjunct2, THEN conjunct1] h4
  have "data_grounded_gemini_attempts (Some ()) always_server_error [2, 3, 4]
       = (Loop_raise (ClientError 500), [Request])"
    by blast
  ultimately show ?thesis using h4 by (simp add: always_rate_limited_def)
qed

section \<open>Properties of the pipeline\<close>

lemma quiet_append: "quiet (xs @ ys) \<longleftrightarrow> quiet xs \<and> quiet ys"
  by (simp add: quiet_def)

lemma quiet_after: "quiet es \<Longrightarrow> quiet (snd r) \<Longrightarrow> quiet (snd (after es r))"
  by (simp add: after_def quiet_append)

lemma quiet_if: "quiet (snd a) \<Longrightarrow> quiet (snd b) \<Longrightarrow> quiet (snd (if c then a else b))"
  by simp

lemma quiet_attempt_outcome: "quiet (snd (attempt_outcome gemini_client generate_content attempt))"
  by (cases gemini_client) (simp_all add: attempt_outcome_def quiet_def)

lemma quiet_data_grounded_gemini_attempts:
  "quiet (snd (data_grounded_gemini_attempts gemini_client generate_content attempts))"
proof (induction attempts)
  case Nil
  then show ?case by (simp add: quiet_def)
next
  case (Cons attempt rest)
  obtain oc es where o: "attempt_outcome gemini_client generate_content attempt = (oc, es)"
    by (cases "attempt_outcome gemini_client generate_content attempt")
  with quiet_attempt_outcome [of gemini_client generate_content attempt] have q: "quiet es" by simp
  show ?case
  proof (cases oc)
    case (Returned x)
    with o q show ?thesis by simp
  next
    case (Raised_ClientError code)
    with o q Cons.IH show ?thesis
      by (auto simp: quiet_append quiet_def [of "[_]"] quiet_def [of "[_, _]"] intro!: quiet_after)
  next
    case Raised_Exception
    with o q Cons.IH show ?thesis
      by (auto simp: quiet_append quiet_def [of "[_]"] quiet_def [of "[_, _]"] intro!: quiet_after)
  qed
qed

lemma quiet_ask_compeditors_attempts:
  "quiet (snd (ask_compeditors_attempts gemini_client generate_content attempts))"
proof (induction attempts)
  case Nil
  then show ?case by (simp add: quiet_def)
next
  case (Cons attempt rest)
  obtain oc es where o: "attempt_outcome gemini_client generate_content attempt = (oc, es)"
    by (cases "attempt_outcome gemini_client generate_content attempt")
  with quiet_attempt_outcome [of gemini_client generate_content attempt] have q: "quiet es" by simp
  show ?case
  proof (cases oc)
    case (Returned x)
    with o q show ?thesis by simp
  next
    case (Raised_ClientError code)
    with o q Cons.IH show ?thesis
      by (auto simp: quiet_append quiet_def [of "[_]"] quiet_def [of "[_, _]"] intro!: quiet_after)
  next
    case Raised_Exception
    with o q Cons.IH show ?thesis
      by (auto simp: quiet_append quiet_def [of "[_]"] quiet_def [of "[_, _]"] intro!: quiet_after)
  qed
qed

lemma quiet_data_grounded_gemini:
  "quiet (snd (data_grounded_gemini company gemini_client generate_content test_mode))"
  unfolding data_grounded_gemini_def
  by (intro quiet_after quiet_if quiet_data_grounded_gemini_attempts) (simp_all add: quiet_def)

lemma quiet_ask_compeditors:
  "quiet (snd (ask_compeditors company gemini_client generate_content test_mode))"
proof -
  have "quiet (snd (case ask_compeditors_attempts gemini_client generate_content [0, 1, 2, 3, 4] of
             (Loop_return compeditors, trace) \<Rightarrow> (Inr compeditors, trace)
           | (Loop_raise e, trace) \<Rightarrow> (Inl e, trace)
           | (Loop_done, trace) \<Rightarrow> (Inr (Competitor_names []), trace)))"
    using quiet_ask_compeditors_attempts [of gemini_client generate_content "[0, 1, 2, 3, 4]"]
    by (auto split: prod.splits loop_end.splits)
  then show ?thesis
    unfolding ask_compeditors_def
    by (intro quiet_after quiet_if) (simp_all add: quiet_def)
qed

lemma quiet_data_fmp: "quiet (snd (data_fmp w symbol test_mode))"
  unfolding data_fmp_def
  by (rule quiet_after) (simp_all add: quiet_def split: option.splits prod.splits)

lemma quiet_data_google: "quiet (snd (data_google w company test_mode))"
  unfolding data_google_def
  by (rule quiet_after) (simp_all add: quiet_def split: sum.splits)

lemma concerns_analyze_company:
  "concerns company (snd (analyze_company w gemini_client test_mode company all_company_data))"
  using quiet_data_google [of w company test_mode] quiet_data_fmp [of w company test_mode]
    quiet_data_grounded_gemini [of company gemini_client "scoring_outcome w company" test_mode]
    quiet_ask_compeditors [of company gemini_client "competitor_outcome w company" test_mode]
  by (auto simp: analyze_company_def after_def concerns_def quiet_def list_all_iff
      split: prod.splits sum.splits option.splits loop_end.splits if_splits)

lemma analyze_company_result:
  "fst (analyze_company w gemini_client test_mode company all_company_data) = Inr updated \<Longrightarrow>
   updated = all_company_data
   \<or> (\<exists>r. updated = AList.update (string_standard_formatting company) r all_company_data)"
  by (auto simp: analyze_company_def after_def
      split: prod.splits sum.splits option.splits loop_end.splits if_splits)

lemma untouched_analyze_loop:
  assumes "skip_company (string_standard_formatting company)"
  shows "untouched company
           (snd (analyze_loop w gemini_client test_mode skip_company companies all_company_data))"
proof (induction companies arbitrary: all_company_data)
  case Nil
  then show ?case by (simp add: untouched_def)
next
  case (Cons c rest)
  show ?case
  proof (cases "skip_company (string_standard_formatting c)")
    case True
    with Cons.IH [of all_company_data] show ?thesis
      by (simp add: after_def untouched_def)
  next
    case False
    with assms have ne: "c \<noteq> company" by auto
    obtain r t where a: "analyze_company w gemini_client test_mode c all_company_data = (r, t)"
      by (cases "analyze_company w gemini_client test_mode c all_company_data")
    from concerns_analyze_company [of c w gemini_client test_mode all_company_data] a ne
    have t: "untouched company t"
      by (auto simp: concerns_def untouched_def list_all_iff)
    show ?thesis
    proof (cases r)
      case (Inl e)
      with a t False show ?thesis by (simp add: after_def untouched_def)
    next
      case (Inr updated)
      with a t False Cons.IH [of updated] show ?thesis by (simp add: after_def untouched_def)
    qed
  qed
qed

lemma absent_analyze_loop:
  assumes "skip_company key"
  shows "fst (analyze_loop w gemini_client test_mode skip_company companies all_company_data) = Inr data
         \<Longrightarrow> map_of all_company_data key = None \<Longrightarrow> map_of data key = None"
proof (induction companies arbitrary: all_company_data)
  case Nil
  then show ?case by simp
next
  case (Cons c rest)
  show ?case
  proof (cases "skip_company (string_standard_formatting c)")
    case True
    with Cons.prems have "fst (analyze_loop w gemini_client test_mode skip_company rest all_company_data) = Inr data"
      by (simp add: after_def)
    from Cons.IH [OF this Cons.prems(2)] show ?thesis .
  next
    case False
    with assms have ne: "string_standard_formatting c \<noteq> key" by auto
    obtain r t where a: "analyze_company w gemini_client test_mode c all_company_data = (r, t)"
      by (cases "analyze_company w gemini_client test_mode c all_company_data")
    show ?thesis
    proof (cases r)
      case (Inl e)
      with a False Cons.prems(1) show ?thesis by (simp add: after_def)
    next
      case (Inr updated)
      with a False Cons.prems(1)
      have l: "fst (analyze_loop w gemini_client test_mode skip_company rest updated) = Inr data"
        by (simp add: after_def)
      from analyze_company_result [of w gemini_client test_mode c all_company_data updated] a Inr
      have "updated = all_company_data
        \<or> (\<exists>r. updated = AList.update (string_standard_formatting c) r all_company_data)"
        by simp
      with ne Cons.prems(2) have "map_of updated key = None"
        by (auto simp: update_conv')
      from Cons.IH [OF l this] show ?thesis .
    qed
  qed
qed

lemma analyze_loop_skip_all:
  "analyze_loop w gemini_client test_mode empty_function_skip_company companies all_company_data
   = (Inr all_company_data,
      concat (map (\<lambda>c. [Print (Analyzing c), Print (Skipping c)]) companies))"
  by (induction companies) (simp_all add: empty_function_skip_company_def after_def)



section \<open>Claims about the pipeline\<close>

text \<open>
  C9. A company whose formatted name the skip predicate accepts is never handed to
  \<open>data_google\<close>, \<open>data_fmp\<close>, \<open>data_grounded_gemini\<close> or \<open>ask_compeditors\<close>, and when
  \<open>analyze_companies\<close> returns, the result has no entry under that company's key.
\<close>

theorem skipped_company_untouched:
  assumes "skip_company (string_standard_formatting company)"
  shows "untouched company
           (snd (analyze_companies w companies keys test_mode skip_company))
       \<and> (\<forall>data. fst (analyze_companies w companies keys test_mode skip_company) = Inr data
            \<longrightarrow> map_of data (string_standard_formatting company) = None)"
  using assms
    untouched_analyze_loop [of skip_company company w "make_client keys" test_mode companies "[]"]
    absent_analyze_loop [of skip_company "string_standard_formatting company" w
      "make_client keys" test_mode companies "[]"]
  by (simp add: analyze_companies_def)

text \<open>
  C10. The default skip predicate accepts every name, so with it every company is
  skipped: \<open>analyze_companies\<close> prints its two lines per company, calls no source, and
  returns the empty dictionary, whatever the companies, the keys and the mode.
\<close>

theorem default_skip_predicate_skips_all:
  "empty_function_skip_company name = True
   \<and> analyze_companies w companies keys test_mode empty_function_skip_company
     = (Inr [], concat (map (\<lambda>c. [Print (Analyzing c), Print (Skipping c)]) companies))"
  by (simp add: empty_function_skip_company_def [of name] analyze_companies_def
      analyze_loop_skip_all)




theorem skipped_company_untouched_witness:
  "skip_apple (string_standard_formatting ''Apple'')
   \<and> untouched ''Apple''
       (snd (analyze_companies world_rate_limited [''Apple'', ''Google''] [] True skip_apple))
   \<and> (\<exists>data. fst (analyze_companies world_rate_limited [''Apple'', ''Google''] [] True skip_apple)
               = Inr data
         \<and> map_of data (string_standard_formatting ''Apple'') = None
         \<and> map_of data ''google'' \<noteq> None)"
proof -
  have h: "skip_apple (string_standard_formatting ''Apple'')"
    by code_simp
  have r: "fst (analyze_companies world_rate_limited [''Apple'', ''Google''] [] True skip_apple)
           = Inr [(''google'',
                \<lparr>metrics =
                   [(''DEI_L'', 100, 95 / 2), (''DEI_H'', 110, 52727 / 1000),
                    (''QUEER'', 120, 105 / 2), (''BIPOC'', 130, 55769 / 1000),
                    (''PAY'', 190, 15329 / 250), (''ENV'', 130, 39423 / 500)],
                 full_name = ''Google'',
                 competitors = Competitor_names [''Microsoft'', ''Apple'', ''Amazon''],
                 sources = [], date = 0\<rparr>)]"
    by code_simp
  note t = skipped_company_untouched [where skip_company = skip_apple and company = "''Apple''"
      and w = world_rate_limited and companies = "[''Apple'', ''Google'']" and keys = "[]"
      and test_mode = True, OF h]
  note m = t [THEN conjunct2, rule_format, OF r]
  have "\<exists>data. fst (analyze_companies world_rate_limited [''Apple'', ''Google''] [] True skip_apple)
               = Inr data
         \<and> map_of data (string_standard_formatting ''Apple'') = None
         \<and> map_of data ''google'' \<noteq> None"
    using m by (simp add: r)
  with t h show ?thesis by blast
qed

end
